theory Spec2Isabelle
  imports Main "HOL-Library.AList"
begin

section \<open>The market installer (plugins/market/src/node/installer.ts)\<close>

subsection \<open>JavaScript strings and line splitting\<close>

text \<open>
  Strings are lists of characters. The line feed is the separator of
  \<^verbatim>\<open>data.split('\n')\<close>.
\<close>

definition newline :: char where
  "newline = CHR 0x0A"

text \<open>
  \<^verbatim>\<open>s.split('\n')\<close>: the pieces of \<open>s\<close> between line feeds, in order. The result is
  never empty: a string without line feed gives the one-element list of itself, and a
  string ending in a line feed gives a last piece that is empty. \<open>cur\<close> is the piece
  being read.
\<close>

fun split_from :: "string \<Rightarrow> string \<Rightarrow> string list" where
  "split_from cur [] = [cur]"
| "split_from cur (c # cs) =
     (if c = newline then cur # split_from [] cs else split_from (cur @ [c]) cs)"

definition split_nl :: "string \<Rightarrow> string list" where
  "split_nl s = split_from [] s"

subsection \<open>Log records\<close>

datatype level = Debug | Info | Warn | Error

text \<open>
  One call of a logger method. \<open>Log lv text\<close> is \<^verbatim>\<open>logger[lv](text)\<close>;
  \<open>LogCaught lv about\<close> is \<^verbatim>\<open>logger[lv]\<close> called with a caught error or its message,
  where \<open>about\<close> is the line or the package name that was being processed.
\<close>

datatype log_record = Log level string | LogCaught level string

text \<open>
  \<^verbatim>\<open>levelMap\<close> is an object literal with three own keys. A key it does not own is
  looked up in \<^verbatim>\<open>Object.prototype\<close>: for the names defined there the lookup gives a
  function or an object, not \<^verbatim>\<open>undefined\<close>, so \<^verbatim>\<open>??\<close> does not fall back to
  \<^verbatim>\<open>'info'\<close>.
\<close>

datatype level_lookup = Own level | Inherited | Absent

definition object_prototype_keys :: "string list" where
  "object_prototype_keys =
     [''constructor'', ''__defineGetter__'', ''__defineSetter__'', ''hasOwnProperty'',
      ''__lookupGetter__'', ''__lookupSetter__'', ''isPrototypeOf'',
      ''propertyIsEnumerable'', ''toString'', ''valueOf'', ''__proto__'',
      ''toLocaleString'']"

definition levelMap :: "string \<Rightarrow> level_lookup" where
  "levelMap ty =
     (if ty = ''info'' then Own Info
      else if ty = ''warning'' then Own Debug
      else if ty = ''error'' then Own Warn
      else if ty \<in> set object_prototype_keys then Inherited
      else Absent)"

subsection \<open>The stream handlers of exec\<close>

text \<open>
  The body of the loop of the \<^verbatim>\<open>stdout\<close> handler, for one line. \<open>json_parse\<close> stands
  for \<^verbatim>\<open>JSON.parse\<close> followed by the destructuring of \<^verbatim>\<open>type\<close> and \<^verbatim>\<open>data\<close>:
  \<open>None\<close> when it throws. A lookup that lands in the prototype makes the logger call
  throw, which the same \<^verbatim>\<open>catch\<close> handles.
\<close>

definition stdout_line ::
  "(string \<Rightarrow> (string \<times> string) option) \<Rightarrow> bool \<Rightarrow> string \<Rightarrow> log_record list" where
  "stdout_line json_parse useJson line =
     (if \<not> useJson \<or> (case line of [] \<Rightarrow> True | c # _ \<Rightarrow> c \<noteq> CHR ''{'')
      then [Log Info line]
      else (case json_parse line of
              None \<Rightarrow> [Log Warn line, LogCaught Warn line]
            | Some (ty, data) \<Rightarrow>
                (case levelMap ty of
                   Own lv \<Rightarrow> [Log lv data]
                 | Absent \<Rightarrow> [Log Info data]
                 | Inherited \<Rightarrow> [Log Warn line, LogCaught Warn line])))"

definition stderr_line :: "string \<Rightarrow> log_record list" where
  "stderr_line line = [Log Warn line]"

text \<open>
  One \<^verbatim>\<open>'data'\<close> event of a stream: the pending buffer is put in front of the text of
  the chunk (\<^verbatim>\<open>data.toString()\<close>), the result is split, the last piece becomes the
  new buffer and every other piece is handed to the line handler. The result is the new
  buffer and the log records written.
\<close>

definition on_data ::
  "(string \<Rightarrow> log_record list) \<Rightarrow> string \<Rightarrow> string \<Rightarrow> string \<times> log_record list" where
  "on_data handle buf chunk =
     (let lines = split_nl (buf @ chunk)
      in (last lines, concat (map handle (butlast lines))))"



subsection \<open>String comparison and truthiness\<close>

text \<open>
  \<^verbatim>\<open>a < b\<close> on two strings compares them code unit by code unit, and a proper prefix
  is smaller. \<^verbatim>\<open>a >= b\<close> is its negation the other way round.
\<close>

fun js_lt :: "string \<Rightarrow> string \<Rightarrow> bool" where
  "js_lt [] [] = False"
| "js_lt [] (y # ys) = True"
| "js_lt (x # xs) [] = False"
| "js_lt (x # xs) (y # ys) =
     (if x = y then js_lt xs ys else (of_char x :: int) < of_char y)"

definition js_ge :: "string \<Rightarrow> string \<Rightarrow> bool" where
  "js_ge a b = (\<not> js_lt a b)"

text \<open>A string is truthy when it is not empty; \<^verbatim>\<open>undefined\<close> is falsy.\<close>

definition truthy :: "string option \<Rightarrow> bool" where
  "truthy v = (case v of None \<Rightarrow> False | Some s \<Rightarrow> s \<noteq> [])"

subsection \<open>Objects used as dictionaries\<close>

text \<open>
  A \<^verbatim>\<open>Dict\<close> is the list of its entries in the order \<^verbatim>\<open>Object.entries\<close>,
  \<^verbatim>\<open>Object.keys\<close> and \<^verbatim>\<open>for ... in\<close> visit them: the keys that are array indices
  first, in ascending numeric order, then the other keys in the order of their
  creation.
\<close>

type_synonym 'v dict = "(string \<times> 'v) list"

definition is_digit :: "char \<Rightarrow> bool" where
  "is_digit c = (48 \<le> (of_char c :: int) \<and> (of_char c :: int) \<le> 57)"

definition decimal :: "string \<Rightarrow> int" where
  "decimal s = foldl (\<lambda>n c. 10 * n + ((of_char c :: int) - 48)) 0 s"

text \<open>An array index: a canonical decimal numeral below \<open>2^32 - 1 = 4294967295\<close>.\<close>

definition is_array_index :: "string \<Rightarrow> bool" where
  "is_array_index k =
     (k \<noteq> [] \<and> list_all is_digit k \<and> (k = ''0'' \<or> take 1 k \<noteq> ''0'')
      \<and> decimal k < 4294967295)"

definition enum_order :: "'v dict \<Rightarrow> 'v dict" where
  "enum_order d =
     sort_key (\<lambda>e. decimal (fst e)) (filter (\<lambda>e. is_array_index (fst e)) d)
       @ filter (\<lambda>e. \<not> is_array_index (fst e)) d"

definition object_keys :: "'v dict \<Rightarrow> string list" where
  "object_keys d = map fst d"

text \<open>\<^verbatim>\<open>d[k]\<close>, with \<open>None\<close> for \<^verbatim>\<open>undefined\<close>.\<close>

definition dict_get :: "'v dict \<Rightarrow> string \<Rightarrow> 'v option" where
  "dict_get d k = map_of d k"

text \<open>\<^verbatim>\<open>d[k] = v\<close>: an existing key keeps its place, a new key is created.\<close>

definition dict_put :: "'v dict \<Rightarrow> string \<Rightarrow> 'v \<Rightarrow> 'v dict" where
  "dict_put d k v = enum_order (AList.update k v d)"

text \<open>\<^verbatim>\<open>delete d[k]\<close>.\<close>

definition dict_delete :: "'v dict \<Rightarrow> string \<Rightarrow> 'v dict" where
  "dict_delete d k = AList.delete k d"

text \<open>\<^verbatim>\<open>Object.fromEntries\<close>: the entries are assigned one after the other.\<close>

definition from_entries :: "(string \<times> 'v) list \<Rightarrow> 'v dict" where
  "from_entries es = foldl (\<lambda>d e. dict_put d (fst e) (snd e)) [] es"

text \<open>
  \<^verbatim>\<open>valueMap(d, f)\<close>: \<^verbatim>\<open>Object.fromEntries\<close> of the entries of \<open>d\<close> with \<open>f\<close> applied
  to each value and key. The entries of \<open>d\<close> are already in enumeration order.
\<close>

definition valueMap :: "('v \<Rightarrow> string \<Rightarrow> 'w) \<Rightarrow> 'v dict \<Rightarrow> 'w dict" where
  "valueMap f d = from_entries (map (\<lambda>e. (fst e, f (snd e) (fst e))) d)"

subsection \<open>Sorting\<close>

text \<open>
  \<^verbatim>\<open>Array.prototype.sort\<close> with a comparator is a stable sort: an element is placed
  before the first element the comparator puts it strictly in front of. Two versions:
  one for a comparator that always returns (\<^verbatim>\<open>localeCompare\<close>) and one for a
  comparator that may throw (\<^verbatim>\<open>compare\<close> of semver, on a string that is no version),
  where \<open>None\<close> is the exception.
\<close>

fun insert_by :: "('a \<Rightarrow> 'a \<Rightarrow> int) \<Rightarrow> 'a \<Rightarrow> 'a list \<Rightarrow> 'a list" where
  "insert_by cmp x [] = [x]"
| "insert_by cmp x (y # ys) =
     (if cmp x y < 0 then x # y # ys else y # insert_by cmp x ys)"

definition js_sort :: "('a \<Rightarrow> 'a \<Rightarrow> int) \<Rightarrow> 'a list \<Rightarrow> 'a list" where
  "js_sort cmp xs = foldl (\<lambda>acc x. insert_by cmp x acc) [] xs"

fun insert_by_throwing ::
  "('a \<Rightarrow> 'a \<Rightarrow> int option) \<Rightarrow> 'a \<Rightarrow> 'a list \<Rightarrow> 'a list option" where
  "insert_by_throwing cmp x [] = Some [x]"
| "insert_by_throwing cmp x (y # ys) =
     (case cmp x y of
        None \<Rightarrow> None
      | Some c \<Rightarrow>
          if c < 0 then Some (x # y # ys)
          else map_option ((#) y) (insert_by_throwing cmp x ys))"

fun js_sort_throwing_from ::
  "('a \<Rightarrow> 'a \<Rightarrow> int option) \<Rightarrow> 'a list \<Rightarrow> 'a list \<Rightarrow> 'a list option" where
  "js_sort_throwing_from cmp acc [] = Some acc"
| "js_sort_throwing_from cmp acc (x # xs) =
     (case insert_by_throwing cmp x acc of
        None \<Rightarrow> None
      | Some acc' \<Rightarrow> js_sort_throwing_from cmp acc' xs)"

definition js_sort_throwing ::
  "('a \<Rightarrow> 'a \<Rightarrow> int option) \<Rightarrow> 'a list \<Rightarrow> 'a list option" where
  "js_sort_throwing cmp xs = js_sort_throwing_from cmp [] xs"

subsection \<open>Remote packages and the version mapping\<close>

text \<open>
  Of a \<^verbatim>\<open>RemotePackage\<close> the installer reads the version and the three fields that
  \<^verbatim>\<open>pick\<close> keeps.
\<close>

datatype package_meta =
  PackageMeta (peerDependencies: "string dict") (peerDependenciesMeta: "string dict")
    (deprecated: "string option")

record remote_package =
  remote_version :: string
  picked :: package_meta

type_synonym versions = "package_meta dict"

text \<open>
  \<^verbatim>\<open>getVersions\<close>. \<open>compare\<close> is the function of that name of the semver library, a
  parameter of the model; the comparator handed to \<^verbatim>\<open>sort\<close> is
  \<^verbatim>\<open>([a], [b]) => compare(b, a)\<close>.
\<close>

definition getVersions ::
  "(string \<Rightarrow> string \<Rightarrow> int option) \<Rightarrow> remote_package list \<Rightarrow> versions option" where
  "getVersions compare versions =
     map_option from_entries
       (js_sort_throwing (\<lambda>a b. compare (fst b) (fst a))
          (map (\<lambda>item. (remote_version item, picked item)) versions))"

subsection \<open>The installer, its collaborators and its effects\<close>

record dependency =
  request :: string
  resolved :: "string option"
  workspace :: "bool option"
  invalid :: "bool option"
  latest :: "string option"

text \<open>
  What \<^verbatim>\<open>loadManifest\<close> returns, as far as the installer reads it: the version of
  the installed package and the \<^verbatim>\<open>$workspace\<close> mark.
\<close>

record local_package =
  version :: "string option"
  dollar_workspace :: bool

text \<open>The result of \<^verbatim>\<open>which()\<close>, when there is one.\<close>

record pm_agent =
  agent_name :: string
  agent_version :: string

text \<open>What a child process emits, in order.\<close>

datatype child_event = Stdout string | Stderr string | Exit int | SpawnError

text \<open>The promise of a version mapping: a task of \<^verbatim>\<open>pkgTasks\<close>.\<close>

datatype promise = Pending | Resolved "versions option"

type_synonym disk = "string \<Rightarrow> local_package option"

text \<open>
  The collaborators, parameters of the model: the package manager that runs the
  process, the configuration, the registry (\<open>http_get name\<close> is
  \<^verbatim>\<open>Object.values(registry.versions)\<close> of the answer, \<open>None\<close> a failed request), the
  scanner's predicates, the functions of semver (\<open>satisfies\<close> with pre-releases
  included), \<^verbatim>\<open>localeCompare\<close>, \<^verbatim>\<open>JSON.parse\<close>, the operating system (\<open>spawn\<close> gives
  the events of the child and the installed packages it leaves), the module loader of
  node (\<open>require_resolve\<close> is \<open>None\<close> when it throws), the throttle of the context
  (whether the \<open>n\<close>-th call of \<^verbatim>\<open>flushData\<close> runs the callback at once) and the
  presence of the console service.
\<close>

record env =
  agent :: "pm_agent option"
  config_endpoint :: "string option"
  endpoint :: string
  http_get :: "string \<Rightarrow> remote_package list option"
  isPlugin :: "string \<Rightarrow> bool"
  isCompatible :: "remote_package \<Rightarrow> bool"
  compare :: "string \<Rightarrow> string \<Rightarrow> int option"
  satisfies :: "string \<Rightarrow> string \<Rightarrow> bool"
  valid :: "string \<Rightarrow> bool"
  localeCompare :: "string \<Rightarrow> string \<Rightarrow> int"
  json_parse :: "string \<Rightarrow> (string \<times> string) option"
  spawn :: "string \<Rightarrow> string list \<Rightarrow> disk \<Rightarrow> child_event list \<times> disk"
  require_resolve :: "string \<Rightarrow> string option"
  require_cache :: "string list"
  throttle_open :: "nat \<Rightarrow> bool"
  has_console :: bool

text \<open>
  The installer: its fields (\<open>manifest\<close> is \<^verbatim>\<open>this.manifest.dependencies\<close>, a task of
  \<open>pkgTasks\<close> is the index of its promise in \<open>promises\<close>), then the record of what it has
  done to the outside (registry requests issued, manifests written, processes spawned,
  caches broadcast, calls of \<^verbatim>\<open>flushData\<close>, console refreshes, full reloads, log),
  then the installed packages as \<^verbatim>\<open>loadManifest\<close> finds them.
\<close>

record installer =
  depTask :: "dependency dict option"
  manifest :: "string dict"
  pkgTasks :: "nat dict"
  fullCache :: "versions dict"
  tempCache :: "versions dict"
  promises :: "promise list"
  fetched :: "string list"
  written :: "string dict list"
  spawned :: "(string \<times> string list) list"
  broadcasts :: "versions dict list"
  flushes :: nat
  refreshed :: "string list"
  reloads :: nat
  logged :: "log_record list"
  node_modules :: disk

definition loadManifest :: "installer \<Rightarrow> string \<Rightarrow> local_package option" where
  "loadManifest s name = node_modules s name"

subsection \<open>The fetch tasks and the version caches\<close>

text \<open>
  \<^verbatim>\<open>flushData\<close>, the throttled callback: when the throttle lets the call through, the
  delta cache is broadcast (if there is a console) and emptied.
\<close>

definition flush_callback :: "env \<Rightarrow> installer \<Rightarrow> installer" where
  "flush_callback e s =
     s\<lparr>broadcasts := (if has_console e then broadcasts s @ [tempCache s] else broadcasts s),
       tempCache := []\<rparr>"

definition flushData :: "env \<Rightarrow> installer \<Rightarrow> installer" where
  "flushData e s =
     (let s1 = s\<lparr>flushes := flushes s + 1\<rparr>
      in if throttle_open e (flushes s) then flush_callback e s1 else s1)"

definition task_state :: "installer \<Rightarrow> nat \<Rightarrow> promise" where
  "task_state s t = (if t < length (promises s) then promises s ! t else Pending)"

definition settle :: "nat \<Rightarrow> versions option \<Rightarrow> installer \<Rightarrow> installer" where
  "settle t r s = s\<lparr>promises := (promises s)[t := Resolved r]\<rparr>"

text \<open>
  \<^verbatim>\<open>_getPackage(name)\<close> up to its \<^verbatim>\<open>await\<close>: the request is issued and the promise of
  the call exists, pending.
\<close>

definition priv_getPackage_start :: "string \<Rightarrow> installer \<Rightarrow> nat \<times> installer" where
  "priv_getPackage_start name s =
     (length (promises s),
      s\<lparr>promises := promises s @ [Pending], fetched := fetched s @ [name]\<rparr>)"

text \<open>
  \<^verbatim>\<open>_getPackage(name)\<close> from its \<^verbatim>\<open>await\<close> on, when the request of task \<open>t\<close> has ended
  with \<open>response\<close>. A failed request and a throwing \<^verbatim>\<open>getVersions\<close> both end in the
  \<^verbatim>\<open>catch\<close>: a warning, and the promise resolves to \<^verbatim>\<open>undefined\<close>.
\<close>

definition priv_getPackage_finish ::
  "env \<Rightarrow> string \<Rightarrow> nat \<Rightarrow> remote_package list option \<Rightarrow> installer
     \<Rightarrow> versions option \<times> installer" where
  "priv_getPackage_finish e name t response s =
     (case (case response of
              None \<Rightarrow> None
            | Some remotes \<Rightarrow>
                getVersions (compare e)
                  (filter (\<lambda>remote. \<not> isPlugin e name \<or> isCompatible e remote) remotes)) of
        None \<Rightarrow>
          (None, settle t None (s\<lparr>logged := logged s @ [LogCaught Warn name]\<rparr>))
      | Some vs \<Rightarrow>
          (let s1 = s\<lparr>tempCache := dict_put (tempCache s) name vs\<rparr>;
               s2 = s1\<lparr>fullCache := dict_put (fullCache s1) name vs\<rparr>;
               s3 = flushData e s2;
               r = dict_get (fullCache s3) name
           in (r, settle t r s3)))"

text \<open>\<^verbatim>\<open>getPackage\<close>: \<^verbatim>\<open>this.pkgTasks[name] ||= this._getPackage(name)\<close>.\<close>

definition getPackage :: "string \<Rightarrow> installer \<Rightarrow> nat \<times> installer" where
  "getPackage name s =
     (case dict_get (pkgTasks s) name of
        Some t \<Rightarrow> (t, s)
      | None \<Rightarrow>
          (let (t, s1) = priv_getPackage_start name s
           in (t, s1\<lparr>pkgTasks := dict_put (pkgTasks s1) name t\<rparr>)))"


text \<open>
  \<^verbatim>\<open>await this.getPackage(name)\<close>, run to its end: a pending request ends now, with the
  registry's answer.
\<close>

definition await_getPackage ::
  "env \<Rightarrow> string \<Rightarrow> installer \<Rightarrow> versions option \<times> installer" where
  "await_getPackage e name s =
     (let (t, s1) = getPackage name s
      in case task_state s1 t of
           Resolved r \<Rightarrow> (r, s1)
         | Pending \<Rightarrow> priv_getPackage_finish e name t (http_get e name) s1)"

subsection \<open>The dependency snapshot\<close>

text \<open>\<^verbatim>\<open>request.replace(/^[~^]/, '')\<close>.\<close>

definition strip_range :: "string \<Rightarrow> string" where
  "strip_range req =
     (case req of
        [] \<Rightarrow> []
      | c # cs \<Rightarrow> if c = CHR ''~'' \<or> c = CHR ''^'' then cs else req)"

text \<open>
  The mapper of \<^verbatim>\<open>pMap\<close> in \<^verbatim>\<open>_getDeps\<close>, on the record \<open>dep\<close> that \<^verbatim>\<open>result[name]\<close>
  holds: \<open>resolve_remote\<close> is what follows the \<^verbatim>\<open>try\<close>. The mappers run one after the
  other here, each to its end.
\<close>

definition resolve_remote ::
  "env \<Rightarrow> string \<Rightarrow> dependency \<Rightarrow> installer \<Rightarrow> dependency \<times> installer" where
  "resolve_remote e name dep s =
     (let dep1 = (if \<not> valid e (request dep) then dep\<lparr>invalid := Some True\<rparr> else dep);
          (vs, s1) = await_getPackage e name s
      in case vs of
           None \<Rightarrow> (dep1, s1)
         | Some d \<Rightarrow>
             (dep1\<lparr>latest := (case object_keys d of [] \<Rightarrow> None | k # _ \<Rightarrow> Some k)\<rparr>, s1))"

definition resolve_dep ::
  "env \<Rightarrow> string \<Rightarrow> dependency \<Rightarrow> installer \<Rightarrow> dependency \<times> installer" where
  "resolve_dep e name dep s =
     (case loadManifest s name of
        None \<Rightarrow> resolve_remote e name dep s
      | Some meta \<Rightarrow>
          (let dep1 = dep\<lparr>resolved := version meta,
                         workspace := Some (dollar_workspace meta)\<rparr>
           in if dollar_workspace meta then (dep1, s)
              else resolve_remote e name dep1 s))"

fun getDeps_each ::
  "env \<Rightarrow> dependency dict \<Rightarrow> installer \<Rightarrow> dependency dict \<times> installer" where
  "getDeps_each e [] s = ([], s)"
| "getDeps_each e ((name, dep) # rest) s =
     (let (dep', s1) = resolve_dep e name dep s;
          (rest', s2) = getDeps_each e rest s1
      in ((name, dep') # rest', s2))"

definition priv_getDeps :: "env \<Rightarrow> installer \<Rightarrow> dependency dict \<times> installer" where
  "priv_getDeps e s =
     getDeps_each e
       (valueMap
          (\<lambda>req name.
             \<lparr>request = strip_range req, resolved = None, workspace = None,
              invalid = None, latest = None\<rparr>)
          (manifest s))
       s"

text \<open>\<^verbatim>\<open>getDeps\<close>: \<^verbatim>\<open>this.depTask ||= this._getDeps()\<close>, awaited.\<close>

definition getDeps :: "env \<Rightarrow> installer \<Rightarrow> dependency dict \<times> installer" where
  "getDeps e s =
     (case depTask s of
        Some deps \<Rightarrow> (deps, s)
      | None \<Rightarrow> (let (deps, s1) = priv_getDeps e s in (deps, s1\<lparr>depTask := Some deps\<rparr>)))"

definition refreshData :: "env \<Rightarrow> installer \<Rightarrow> installer" where
  "refreshData e s =
     (if has_console e then s\<lparr>refreshed := refreshed s @ [''registry'', ''packages'']\<rparr>
      else s)"

definition refresh :: "env \<Rightarrow> bool \<Rightarrow> installer \<Rightarrow> installer" where
  "refresh e flag s =
     (let s1 = s\<lparr>pkgTasks := []\<rparr>;
          s2 = s1\<lparr>fullCache := []\<rparr>;
          s3 = s2\<lparr>tempCache := []\<rparr>;
          (deps, s4) = priv_getDeps e s3;
          s5 = s4\<lparr>depTask := Some deps\<rparr>
      in if \<not> flag then s5 else refreshData e s5)"

subsection \<open>Running the package manager\<close>

text \<open>
  The promise of \<^verbatim>\<open>exec\<close> and the two stream handlers, over the events of the child.
  A promise settles once: the first \<^verbatim>\<open>'exit'\<close> or \<^verbatim>\<open>'error'\<close> event decides the
  code. \<open>None\<close> is a promise that is still pending when the events end.
\<close>

fun run_child ::
  "(string \<Rightarrow> log_record list) \<Rightarrow> child_event list \<Rightarrow> int option \<Rightarrow> string \<Rightarrow> string
     \<Rightarrow> int option \<times> log_record list" where
  "run_child h [] code out err = (code, [])"
| "run_child h (Exit c # evs) code out err =
     run_child h evs (case code of None \<Rightarrow> Some c | Some c' \<Rightarrow> Some c') out err"
| "run_child h (SpawnError # evs) code out err =
     run_child h evs (case code of None \<Rightarrow> Some (- 1) | Some c' \<Rightarrow> Some c') out err"
| "run_child h (Stderr chunk # evs) code out err =
     (let (err', lines) = on_data stderr_line err chunk;
          (code', rest) = run_child h evs code out err'
      in (code', lines @ rest))"
| "run_child h (Stdout chunk # evs) code out err =
     (let (out', lines) = on_data h out chunk;
          (code', rest) = run_child h evs code out' err
      in (code', lines @ rest))"

definition agent_or_npm :: "pm_agent option \<Rightarrow> string" where
  "agent_or_npm a = (case a of None \<Rightarrow> ''npm'' | Some ag \<Rightarrow> agent_name ag)"

definition useJson :: "pm_agent option \<Rightarrow> bool" where
  "useJson a =
     (agent_or_npm a = ''yarn''
      \<and> (case a of None \<Rightarrow> False | Some ag \<Rightarrow> js_ge (agent_version ag) ''2''))"

definition exec_args :: "pm_agent option \<Rightarrow> string list \<Rightarrow> string list" where
  "exec_args a args =
     (let args1 = (if agent_or_npm a \<noteq> ''yarn'' then ''install'' # args else args)
      in if useJson a then args1 @ [''--json''] else args1)"

definition exec :: "env \<Rightarrow> string list \<Rightarrow> installer \<Rightarrow> int option \<times> installer" where
  "exec e args s =
     (let name = agent_or_npm (agent e);
          args' = exec_args (agent e) args;
          (events, disk') = spawn e name args' (node_modules s);
          (code, out) =
            run_child (stdout_line (json_parse e) (useJson (agent e))) events None [] []
      in (code,
          s\<lparr>spawned := spawned s @ [(name, args')], logged := logged s @ out,
            node_modules := disk'\<rparr>))"

definition priv_install :: "env \<Rightarrow> installer \<Rightarrow> int option \<times> installer" where
  "priv_install e s =
     exec e (if truthy (config_endpoint e) then [''--registry'', endpoint e] else []) s"

subsection \<open>Overriding the manifest\<close>

fun apply_overrides :: "string dict \<Rightarrow> string list \<Rightarrow> string dict \<Rightarrow> string dict" where
  "apply_overrides deps [] m = m"
| "apply_overrides deps (key # keys) m =
     apply_overrides deps keys
       (case dict_get deps key of
          None \<Rightarrow> dict_delete m key
        | Some v \<Rightarrow> if v \<noteq> [] then dict_put m key v else dict_delete m key)"

definition override :: "env \<Rightarrow> string dict \<Rightarrow> installer \<Rightarrow> installer" where
  "override e deps s =
     (let m = apply_overrides deps (object_keys deps) (manifest s);
          m' = from_entries (js_sort (\<lambda>a b. localeCompare e (fst a) (fst b)) m);
          s1 = s\<lparr>manifest := m'\<rparr>
      in s1\<lparr>written := written s1 @ [m']\<rparr>)"

subsection \<open>Installing\<close>

definition priv_getLocalDeps :: "installer \<Rightarrow> string dict \<Rightarrow> dependency dict" where
  "priv_getLocalDeps s deps =
     valueMap
       (\<lambda>req name.
          (let dep = \<lparr>request = req, resolved = None, workspace = None, invalid = None,
                      latest = None\<rparr>
           in case loadManifest s name of
                None \<Rightarrow> dep
              | Some meta \<Rightarrow>
                  dep\<lparr>resolved := version meta, workspace := Some (dollar_workspace meta)\<rparr>))
       deps"

text \<open>
  The first loop of \<^verbatim>\<open>install\<close>, over the names \<^verbatim>\<open>for (const name in deps)\<close> still
  has to visit. Beside the flag it returns the names whose test it has evaluated, in
  order.
\<close>

fun decide ::
  "env \<Rightarrow> string dict \<Rightarrow> dependency dict \<Rightarrow> string list \<Rightarrow> bool \<Rightarrow> bool \<times> string list" where
  "decide e deps localDeps [] forced = (forced, [])"
| "decide e deps localDeps (name # names) forced =
     (let res = (case dict_get localDeps name of None \<Rightarrow> None | Some d \<Rightarrow> resolved d);
          ws = (case dict_get localDeps name of None \<Rightarrow> None | Some d \<Rightarrow> workspace d)
      in if ws = Some True
            \<or> (truthy (dict_get deps name) \<and> truthy res
               \<and> (case (res, dict_get deps name) of
                     (Some v, Some r) \<Rightarrow> satisfies e v r
                   | _ \<Rightarrow> False))
         then (let (f, visited) = decide e deps localDeps names forced
               in (f, name # visited))
         else (True, [name]))"

text \<open>
  The second loop of \<^verbatim>\<open>install\<close>, over the entries of \<^verbatim>\<open>localDeps\<close>. The loader is
  taken to be present.
\<close>

fun reload_each :: "env \<Rightarrow> dependency dict \<Rightarrow> dependency dict \<Rightarrow> installer \<Rightarrow> installer" where
  "reload_each e newDeps [] s = s"
| "reload_each e newDeps ((name, dep) # rest) s =
     (if workspace dep = Some True \<or> dict_get newDeps name = None
      then reload_each e newDeps rest s
      else if map_option resolved (dict_get newDeps name) = Some (resolved dep)
      then reload_each e newDeps rest s
      else
        (case require_resolve e name of
           None \<Rightarrow>
             reload_each e newDeps rest
               (s\<lparr>logged := logged s @ [LogCaught Error name], reloads := reloads s + 1\<rparr>)
         | Some path \<Rightarrow>
             if path \<notin> set (require_cache e) then reload_each e newDeps rest s
             else reload_each e newDeps rest (s\<lparr>reloads := reloads s + 1\<rparr>)))"

text \<open>\<^verbatim>\<open>install\<close> from \<^verbatim>\<open>this.refresh()\<close> on.\<close>

definition reconcile :: "env \<Rightarrow> dependency dict \<Rightarrow> installer \<Rightarrow> int option \<times> installer" where
  "reconcile e localDeps s =
     (let s1 = refresh e False s;
          (newDeps, s2) = getDeps e s1;
          s3 = reload_each e newDeps localDeps s2
      in (Some 0, refreshData e s3))"

text \<open>
  \<^verbatim>\<open>install\<close>. The result is the number the promise resolves to, \<open>None\<close> when the
  promise of \<^verbatim>\<open>exec\<close> stays pending. An absent \<^verbatim>\<open>forced\<close> is \<open>False\<close>.
\<close>

definition install ::
  "env \<Rightarrow> string dict \<Rightarrow> bool \<Rightarrow> installer \<Rightarrow> int option \<times> installer" where
  "install e deps forced s =
     (let localDeps = priv_getLocalDeps s deps;
          s1 = override e deps s;
          forced' = fst (decide e deps localDeps (object_keys deps) forced)
      in if forced'
         then (case priv_install e s1 of
                 (None, s2) \<Rightarrow> (None, s2)
               | (Some code, s2) \<Rightarrow>
                   if code \<noteq> 0 then (Some code, s2) else reconcile e localDeps s2)
         else reconcile e localDeps s1)"

subsection \<open>Interleaved calls on the fetch tasks\<close>





subsection \<open>The specification's reading of the package manager's version\<close>

text \<open>
  The major version of a version string: the number its leading digits spell. The
  specification's criterion for structured output: the tool is yarn and its major
  version is at least 2.
\<close>

definition major_version :: "string \<Rightarrow> int" where
  "major_version v = decimal (takeWhile is_digit v)"

definition structured_output_supported :: "pm_agent option \<Rightarrow> bool" where
  "structured_output_supported a =
     (case a of
        None \<Rightarrow> False
      | Some ag \<Rightarrow> agent_name ag = ''yarn'' \<and> 2 \<le> major_version (agent_version ag))"

definition yarn10 :: "pm_agent option" where
  "yarn10 = Some \<lparr>agent_name = ''yarn'', agent_version = ''10.0.0''\<rparr>"

subsection \<open>Descending order of versions\<close>





text \<open>
  A comparator in the manner of \<^verbatim>\<open>compare\<close> of semver, for the versions
  \<^verbatim>\<open>MAJOR.MINOR.PATCH\<close> with optional build metadata \<^verbatim>\<open>+BUILD\<close>: the three numbers
  are compared as numbers and the build metadata is not compared. On any other string it
  is \<open>None\<close>. It serves as a concrete comparator.
\<close>

definition version_core :: "string \<Rightarrow> (int \<times> int \<times> int) option" where
  "version_core v =
     (let core = takeWhile (\<lambda>c. c \<noteq> CHR ''+'') v;
          a = takeWhile (\<lambda>c. c \<noteq> CHR ''.'') core;
          r = drop (Suc (length a)) core;
          b = takeWhile (\<lambda>c. c \<noteq> CHR ''.'') r;
          c = drop (Suc (length b)) r
      in if a \<noteq> [] \<and> b \<noteq> [] \<and> c \<noteq> [] \<and> list_all is_digit (a @ b @ c)
         then Some (decimal a, decimal b, decimal c)
         else None)"

definition plain_compare :: "string \<Rightarrow> string \<Rightarrow> int option" where
  "plain_compare x y =
     (case (version_core x, version_core y) of
        (Some (a1, b1, c1), Some (a2, b2, c2)) \<Rightarrow>
          Some (if a1 \<noteq> a2 then sgn (a1 - a2)
                else if b1 \<noteq> b2 then sgn (b1 - b2)
                else sgn (c1 - c2))
      | _ \<Rightarrow> None)"

definition remote :: "string \<Rightarrow> remote_package" where
  "remote v = \<lparr>remote_version = v, picked = PackageMeta [] [] None\<rparr>"


subsection \<open>Requests issued between two states\<close>


subsection \<open>A concrete installation\<close>

text \<open>
  A project that declares \<^verbatim>\<open>left-pad\<close> at \<^verbatim>\<open>^1.0.0\<close> and has 1.0.5 installed, with a
  package manager that, when run, installs 2.0.0 and exits with code 0. \<open>caret_satisfies\<close>
  does for \<^verbatim>\<open>satisfies\<close> on a range \<^verbatim>\<open>^MAJOR.MINOR.PATCH\<close> with a major version that
  is not zero: the same major version, and not below the range's version.
\<close>

definition caret_satisfies :: "string \<Rightarrow> string \<Rightarrow> bool" where
  "caret_satisfies v r =
     (case (version_core v, version_core (strip_range r)) of
        (Some (a, b, c), Some (a', b', c')) \<Rightarrow> a = a' \<and> (b' < b \<or> (b = b' \<and> c' \<le> c))
      | _ \<Rightarrow> False)"

definition demo_env :: env where
  "demo_env =
     \<lparr>agent = Some \<lparr>agent_name = ''yarn'', agent_version = ''3.6.4''\<rparr>,
      config_endpoint = None,
      endpoint = ''https://registry.npmjs.org'',
      http_get = (\<lambda>name. if name = ''left-pad''
                          then Some [remote ''1.0.5'', remote ''2.0.0'', remote ''1.10.0'']
                          else None),
      isPlugin = (\<lambda>name. False),
      isCompatible = (\<lambda>r. True),
      compare = plain_compare,
      satisfies = caret_satisfies,
      valid = (\<lambda>v. version_core v \<noteq> None),
      localeCompare = (\<lambda>a b. if js_lt a b then - 1 else if a = b then 0 else 1),
      json_parse = (\<lambda>line. None),
      spawn = (\<lambda>name args d.
                 ([Stdout (''done'' @ [newline]), Exit 0],
                  d(''left-pad'' \<mapsto> \<lparr>version = Some ''2.0.0'', dollar_workspace = False\<rparr>))),
      require_resolve = (\<lambda>name. Some (name @ ''/index.js'')),
      require_cache = [''left-pad/index.js''],
      throttle_open = (\<lambda>n. n = 0),
      has_console = True\<rparr>"

definition demo_installer :: installer where
  "demo_installer =
     \<lparr>depTask = None,
      manifest = [(''left-pad'', ''^1.0.0'')],
      pkgTasks = [], fullCache = [], tempCache = [], promises = [],
      fetched = [], written = [], spawned = [], broadcasts = [], flushes = 0,
      refreshed = [], reloads = 0, logged = [],
      node_modules =
        (\<lambda>name. if name = ''left-pad''
                then Some \<lparr>version = Some ''1.0.5'', dollar_workspace = False\<rparr>
                else None)\<rparr>"


subsection \<open>Workspace links\<close>

text \<open>
  The specification's words: a package is workspace-linked when its installed manifest
  is found and was resolved outside of a managed dependency directory.
\<close>

definition workspace_linked :: "installer \<Rightarrow> string \<Rightarrow> bool" where
  "workspace_linked s name =
     (case loadManifest s name of None \<Rightarrow> False | Some meta \<Rightarrow> dollar_workspace meta)"


subsection \<open>Satisfied overrides\<close>

text \<open>
  The specification's words: the version of a package that is installed locally, if
  any; and an override is satisfied when the package is workspace-linked, or the
  requested range is not empty and the locally resolved version satisfies it.
\<close>

definition installed_version :: "installer \<Rightarrow> string \<Rightarrow> string option" where
  "installed_version s name =
     (case loadManifest s name of None \<Rightarrow> None | Some meta \<Rightarrow> version meta)"

definition override_satisfied :: "env \<Rightarrow> installer \<Rightarrow> string dict \<Rightarrow> string \<Rightarrow> bool" where
  "override_satisfied e s deps name =
     (workspace_linked s name
      \<or> (case (dict_get deps name, installed_version s name) of
            (Some r, Some v) \<Rightarrow> r \<noteq> [] \<and> v \<noteq> [] \<and> satisfies e v r
          | _ \<Rightarrow> False))"

subsection \<open>The exit code of a child process\<close>

text \<open>
  The specification's words: the code a run of the child process ends with is its real
  exit code, or \<open>- 1\<close> when the process failed to start; the first of the two events
  decides. A run without either event has no code.
\<close>

definition is_terminal :: "child_event \<Rightarrow> bool" where
  "is_terminal ev = (case ev of Exit c \<Rightarrow> True | SpawnError \<Rightarrow> True | _ \<Rightarrow> False)"

definition exit_code :: "child_event list \<Rightarrow> int option" where
  "exit_code events =
     (case find is_terminal events of
        None \<Rightarrow> None
      | Some (Exit c) \<Rightarrow> Some c
      | Some _ \<Rightarrow> Some (- 1))"

text \<open>
  The same environment with a package manager that fails: one that exits with code 1 and
  leaves the installed packages as they are, and one that cannot be started.
\<close>

definition demo_failing_env :: env where
  "demo_failing_env =
     demo_env\<lparr>spawn := (\<lambda>name args d. ([Stderr (''error'' @ [newline]), Exit 1], d))\<rparr>"

definition demo_unstartable_env :: env where
  "demo_unstartable_env = demo_env\<lparr>spawn := (\<lambda>name args d. ([SpawnError], d))\<rparr>"

definition demo_upgrade :: "string dict" where
  "demo_upgrade = [(''left-pad'', ''^2.0.0'')]"

definition demo_same :: "string dict" where
  "demo_same = [(''left-pad'', ''^1.0.0'')]"

text \<open>
  An installer that has fetched \<^verbatim>\<open>left-pad\<close> before, and the same installer holding
  what it fetched: a resolved task, a cache entry and a snapshot.
\<close>

definition demo_fetched :: installer where
  "demo_fetched =
     demo_installer
       \<lparr>promises := [Resolved (Some [(''1.0.5'', PackageMeta [] [] None)])],
        fetched := [''left-pad'']\<rparr>"

definition demo_stale :: installer where
  "demo_stale =
     demo_fetched
       \<lparr>pkgTasks := [(''left-pad'', 0)],
        fullCache := [(''left-pad'', [(''1.0.5'', PackageMeta [] [] None)])],
        tempCache := [],
        depTask := Some [(''left-pad'',
                          \<lparr>request = ''1.0.0'', resolved = Some ''1.0.5'',
                             workspace = Some False, invalid = None,
                             latest = Some ''1.0.5''\<rparr>)]\<rparr>"

subsection \<open>Reloading after an install\<close>






section \<open>Properties\<close>

subsection \<open>Line buffering\<close>












subsection \<open>Structured output\<close>

text \<open>
  C5. The claim: \<^verbatim>\<open>exec\<close> asks for structured output exactly when the tool is yarn at
  major version 2 or more. The test in the code compares the version string with
  \<^verbatim>\<open>'2'\<close> as strings, so at yarn 10.0.0, whose major version is 10, \<^verbatim>\<open>exec\<close> stays
  in plain-text mode and does not pass \<^verbatim>\<open>--json\<close>.
\<close>

theorem exec_yarn10_plain_text:
  "structured_output_supported yarn10
   \<and> \<not> useJson yarn10
   \<and> exec_args yarn10 [''--registry'', r] = [''--registry'', r]"
  by (simp add: structured_output_supported_def yarn10_def useJson_def exec_args_def
      agent_or_npm_def js_ge_def major_version_def decimal_def is_digit_def)

subsection \<open>The order of the version mapping\<close>


















subsection \<open>Dictionaries\<close>

lemma set_enum_order: "set (enum_order d) = set d"
  by (auto simp: enum_order_def)

lemma distinct_enum_order:
  assumes "distinct (map fst d)"
  shows "distinct (map fst (enum_order d))"
proof -
  from assms have d: "distinct d" and i: "inj_on fst (set d)"
    by (auto simp: distinct_map)
  have "distinct (enum_order d)" using d by (auto simp: enum_order_def)
  moreover have "inj_on fst (set (enum_order d))" using i by (simp add: set_enum_order)
  ultimately show ?thesis by (simp add: distinct_map)
qed


lemma dict_put_distinct:
  "distinct (object_keys d) \<Longrightarrow> distinct (object_keys (dict_put d k v))"
  by (simp add: object_keys_def dict_put_def distinct_enum_order AList.distinct_update)


lemma dict_put_keys:
  "set (object_keys (dict_put d k v)) = insert k (set (object_keys d))"
proof -
  have "set (object_keys (dict_put d k v)) = fst ` set (AList.update k v d)"
    by (simp add: object_keys_def dict_put_def set_enum_order)
  also have "\<dots> = set (map fst (AList.update k v d))" by simp
  also have "\<dots> = insert k (set (object_keys d))"
    by (auto simp: update_keys object_keys_def)
  finally show ?thesis .
qed

lemma dict_get_None: "dict_get d k = None \<longleftrightarrow> k \<notin> set (object_keys d)"
  by (simp add: dict_get_def object_keys_def map_of_eq_None_iff)

subsection \<open>One request for each package name\<close>

lemma flushData_tasks [simp]:
  "pkgTasks (flushData e s) = pkgTasks s" "fetched (flushData e s) = fetched s"
  "pkgTasks (flush_callback e s) = pkgTasks s" "fetched (flush_callback e s) = fetched s"
  by (simp_all add: flushData_def flush_callback_def Let_def)

lemma finish_tasks [simp]:
  "pkgTasks (snd (priv_getPackage_finish e name t resp s)) = pkgTasks s"
  "fetched (snd (priv_getPackage_finish e name t resp s)) = fetched s"
  by (simp_all add: priv_getPackage_finish_def settle_def Let_def split: option.splits)






















subsection \<open>Running the model on concrete inputs\<close>

text \<open>The definitions to unfold when the model is run on a concrete input.\<close>

named_theorems run_defs

declare
  priv_getDeps_def [run_defs] valueMap_def [run_defs] from_entries_def [run_defs]
  dict_put_def [run_defs] dict_get_def [run_defs] dict_delete_def [run_defs]
  enum_order_def [run_defs] is_array_index_def [run_defs] is_digit_def [run_defs]
  object_keys_def [run_defs] strip_range_def [run_defs]
  resolve_dep_def [run_defs] resolve_remote_def [run_defs] loadManifest_def [run_defs]
  await_getPackage_def [run_defs] getPackage_def [run_defs]
  priv_getPackage_start_def [run_defs] priv_getPackage_finish_def [run_defs]
  task_state_def [run_defs] settle_def [run_defs] flushData_def [run_defs]
  flush_callback_def [run_defs] getVersions_def [run_defs] js_sort_throwing_def [run_defs]
  plain_compare_def [run_defs] version_core_def [run_defs] decimal_def [run_defs]
  remote_def [run_defs] Let_def [run_defs]


subsection \<open>The invalid flag of the snapshot\<close>

lemma set_update_subset: "set (AList.update k v d) \<subseteq> insert (k, v) (set d)"
  by (induction d) auto

lemma set_dict_put_subset: "set (dict_put d k v) \<subseteq> insert (k, v) (set d)"
  using set_update_subset[of k v d] by (simp add: dict_put_def set_enum_order)

lemma set_from_entries_fold:
  "set (foldl (\<lambda>d e. dict_put d (fst e) (snd e)) d es) \<subseteq> set d \<union> set es"
proof (induction es arbitrary: d)
  case Nil
  then show ?case by simp
next
  case (Cons e es)
  from Cons.IH[of "dict_put d (fst e) (snd e)"] set_dict_put_subset[of d "fst e" "snd e"]
  show ?case by auto
qed

lemma set_from_entries: "set (from_entries es) \<subseteq> set es"
  using set_from_entries_fold[of "[]" es] by (simp add: from_entries_def)

lemma valueMap_entry:
  "(k, w) \<in> set (valueMap f d) \<Longrightarrow> \<exists>v. (k, v) \<in> set d \<and> w = f v k"
proof -
  assume "(k, w) \<in> set (valueMap f d)"
  with set_from_entries[of "map (\<lambda>e. (fst e, f (snd e) (fst e))) d"]
  have "(k, w) \<in> (\<lambda>e. (fst e, f (snd e) (fst e))) ` set d"
    by (auto simp: valueMap_def)
  then obtain e where "e \<in> set d" "k = fst e" "w = f (snd e) (fst e)" by auto
  then show ?thesis by (intro exI[of _ "snd e"]) simp
qed

lemma flushData_disk [simp]: "node_modules (flushData e s) = node_modules s"
  by (simp add: flushData_def flush_callback_def Let_def)

lemma finish_disk [simp]:
  "node_modules (snd (priv_getPackage_finish e name t resp s)) = node_modules s"
  by (simp add: priv_getPackage_finish_def settle_def Let_def split: option.splits)

lemma getPackage_disk [simp]: "node_modules (snd (getPackage name s)) = node_modules s"
  by (simp add: getPackage_def priv_getPackage_start_def split: option.splits)

lemma await_getPackage_disk [simp]:
  "node_modules (snd (await_getPackage e name s)) = node_modules s"
  by (simp add: await_getPackage_def split_def Let_def split: promise.splits)

lemma resolve_remote_disk [simp]:
  "node_modules (snd (resolve_remote e name dep s)) = node_modules s"
  by (simp add: resolve_remote_def split_def Let_def split: option.splits)

lemma resolve_dep_disk [simp]:
  "node_modules (snd (resolve_dep e name dep s)) = node_modules s"
  by (simp add: resolve_dep_def Let_def split: option.splits)

lemma getDeps_each_disk [simp]:
  "node_modules (snd (getDeps_each e ds s)) = node_modules s"
  by (induction ds arbitrary: s) (auto simp: split_def Let_def)




lemma getDeps_each_keys [simp]:
  "map fst (fst (getDeps_each e ds s)) = map fst ds"
  by (induction ds arbitrary: s) (auto simp: split_def Let_def)




subsection \<open>The decision to install\<close>

lemma keys_from_entries_fold:
  "set (object_keys (foldl (\<lambda>d e. dict_put d (fst e) (snd e)) d es))
     = set (object_keys d) \<union> set (map fst es)"
  by (induction es arbitrary: d) (auto simp: dict_put_keys)

lemma keys_from_entries: "set (object_keys (from_entries es)) = set (map fst es)"
  using keys_from_entries_fold[of "[]" es] by (simp add: from_entries_def object_keys_def)

lemma dict_get_SomeD: "dict_get d k = Some v \<Longrightarrow> (k, v) \<in> set d"
  by (simp add: dict_get_def map_of_SomeD)

lemma valueMap_keys: "set (object_keys (valueMap f d)) = set (object_keys d)"
proof -
  have "map fst (map (\<lambda>e. (fst e, f (snd e) (fst e))) d) = map fst d" by simp
  then show ?thesis
    unfolding valueMap_def keys_from_entries by (simp add: object_keys_def)
qed

lemma localDeps_get:
  assumes "name \<in> set (object_keys deps)"
  shows "\<exists>d. dict_get (priv_getLocalDeps s deps) name = Some d
           \<and> resolved d = installed_version s name
           \<and> (workspace d = Some True \<longleftrightarrow> workspace_linked s name)"
proof -
  have "name \<in> set (object_keys (priv_getLocalDeps s deps))"
    using assms by (simp add: priv_getLocalDeps_def valueMap_keys)
  then obtain d where d: "dict_get (priv_getLocalDeps s deps) name = Some d"
    using dict_get_None[of "priv_getLocalDeps s deps" name] by (cases "dict_get (priv_getLocalDeps s deps) name") auto
  from valueMap_entry[OF dict_get_SomeD[OF d[unfolded priv_getLocalDeps_def]]]
  obtain req where
    "d = (let dep = \<lparr>request = req, resolved = None, workspace = None, invalid = None,
                      latest = None\<rparr>
           in case loadManifest s name of
                None \<Rightarrow> dep
              | Some meta \<Rightarrow>
                  dep\<lparr>resolved := version meta, workspace := Some (dollar_workspace meta)\<rparr>)"
    by blast
  then have "resolved d = installed_version s name"
    "workspace d = Some True \<longleftrightarrow> workspace_linked s name"
    by (auto simp: installed_version_def workspace_linked_def Let_def split: option.splits)
  with d show ?thesis by blast
qed

lemma decide_step:
  assumes "name \<in> set (object_keys deps)"
  shows "decide e deps (priv_getLocalDeps s deps) (name # names) forced =
     (if override_satisfied e s deps name
      then (fst (decide e deps (priv_getLocalDeps s deps) names forced),
            name # snd (decide e deps (priv_getLocalDeps s deps) names forced))
      else (True, [name]))"
proof -
  from localDeps_get[OF assms, of s] obtain d where
    d: "dict_get (priv_getLocalDeps s deps) name = Some d"
       "resolved d = installed_version s name"
       "workspace d = Some True \<longleftrightarrow> workspace_linked s name"
    by blast
  have "(workspace d = Some True
            \<or> (truthy (dict_get deps name) \<and> truthy (resolved d)
               \<and> (case (resolved d, dict_get deps name) of
                     (Some v, Some r) \<Rightarrow> satisfies e v r
                   | _ \<Rightarrow> False))) = override_satisfied e s deps name"
    using d(2,3)
    by (auto simp: override_satisfied_def truthy_def split: option.splits)
  then show ?thesis using d(1) by (simp add: split_def Let_def)
qed

lemma decide_char:
  assumes "set names \<subseteq> set (object_keys deps)"
  shows "decide e deps (priv_getLocalDeps s deps) names forced =
     (forced \<or> (\<exists>name\<in>set names. \<not> override_satisfied e s deps name),
      takeWhile (override_satisfied e s deps) names
        @ take 1 (dropWhile (override_satisfied e s deps) names))"
  using assms
proof (induction names)
  case Nil
  then show ?case by simp
next
  case (Cons name names)
  then have n: "name \<in> set (object_keys deps)" and ns: "set names \<subseteq> set (object_keys deps)"
    by auto
  show ?case
    unfolding decide_step[OF n] using Cons.IH[OF ns] by auto
qed

lemma flushData_frame [simp]:
  "spawned (flushData e s) = spawned s" "written (flushData e s) = written s"
  "reloads (flushData e s) = reloads s" "manifest (flushData e s) = manifest s"
  by (simp_all add: flushData_def flush_callback_def Let_def)

lemma finish_frame [simp]:
  "spawned (snd (priv_getPackage_finish e name t resp s)) = spawned s"
  "written (snd (priv_getPackage_finish e name t resp s)) = written s"
  "reloads (snd (priv_getPackage_finish e name t resp s)) = reloads s"
  "manifest (snd (priv_getPackage_finish e name t resp s)) = manifest s"
  by (simp_all add: priv_getPackage_finish_def settle_def Let_def split: option.splits)

lemma getPackage_frame [simp]:
  "spawned (snd (getPackage name s)) = spawned s"
  "written (snd (getPackage name s)) = written s"
  "reloads (snd (getPackage name s)) = reloads s"
  "manifest (snd (getPackage name s)) = manifest s"
  by (simp_all add: getPackage_def priv_getPackage_start_def split: option.splits)

lemma await_getPackage_frame [simp]:
  "spawned (snd (await_getPackage e name s)) = spawned s"
  "written (snd (await_getPackage e name s)) = written s"
  "reloads (snd (await_getPackage e name s)) = reloads s"
  "manifest (snd (await_getPackage e name s)) = manifest s"
  by (simp_all add: await_getPackage_def split_def Let_def split: promise.splits)

lemma resolve_remote_frame [simp]:
  "spawned (snd (resolve_remote e name dep s)) = spawned s"
  "written (snd (resolve_remote e name dep s)) = written s"
  "reloads (snd (resolve_remote e name dep s)) = reloads s"
  "manifest (snd (resolve_remote e name dep s)) = manifest s"
  by (simp_all add: resolve_remote_def split_def Let_def split: option.splits)

lemma resolve_dep_frame [simp]:
  "spawned (snd (resolve_dep e name dep s)) = spawned s"
  "written (snd (resolve_dep e name dep s)) = written s"
  "reloads (snd (resolve_dep e name dep s)) = reloads s"
  "manifest (snd (resolve_dep e name dep s)) = manifest s"
  by (simp_all add: resolve_dep_def Let_def split: option.splits)

lemma getDeps_each_frame [simp]:
  "spawned (snd (getDeps_each e ds s)) = spawned s"
  "written (snd (getDeps_each e ds s)) = written s"
  "reloads (snd (getDeps_each e ds s)) = reloads s"
  "manifest (snd (getDeps_each e ds s)) = manifest s"
  by (induction ds arbitrary: s; auto simp: split_def Let_def)+

lemma priv_getDeps_frame [simp]:
  "spawned (snd (priv_getDeps e s)) = spawned s"
  "written (snd (priv_getDeps e s)) = written s"
  "reloads (snd (priv_getDeps e s)) = reloads s"
  "manifest (snd (priv_getDeps e s)) = manifest s"
  "node_modules (snd (priv_getDeps e s)) = node_modules s"
  by (simp_all add: priv_getDeps_def)

lemma refreshData_frame [simp]:
  "spawned (refreshData e s) = spawned s" "written (refreshData e s) = written s"
  "reloads (refreshData e s) = reloads s" "manifest (refreshData e s) = manifest s"
  "node_modules (refreshData e s) = node_modules s"
  "pkgTasks (refreshData e s) = pkgTasks s" "fullCache (refreshData e s) = fullCache s"
  "tempCache (refreshData e s) = tempCache s" "depTask (refreshData e s) = depTask s"
  by (simp_all add: refreshData_def)

lemma refresh_frame [simp]:
  "spawned (refresh e flag s) = spawned s" "written (refresh e flag s) = written s"
  "reloads (refresh e flag s) = reloads s" "manifest (refresh e flag s) = manifest s"
  "node_modules (refresh e flag s) = node_modules s"
  by (simp_all add: refresh_def split_def Let_def)

lemma refresh_depTask:
  "depTask (refresh e flag s)
     = Some (fst (priv_getDeps e (s\<lparr>pkgTasks := [], fullCache := [], tempCache := []\<rparr>)))"
  by (simp add: refresh_def split_def Let_def)

lemma getDeps_frame [simp]:
  "spawned (snd (getDeps e s)) = spawned s" "written (snd (getDeps e s)) = written s"
  "reloads (snd (getDeps e s)) = reloads s" "manifest (snd (getDeps e s)) = manifest s"
  "node_modules (snd (getDeps e s)) = node_modules s"
  by (simp_all add: getDeps_def split_def Let_def split: option.splits)

lemma reload_each_frame [simp]:
  "spawned (reload_each e newDeps ds s) = spawned s"
  "written (reload_each e newDeps ds s) = written s"
  "manifest (reload_each e newDeps ds s) = manifest s"
  "node_modules (reload_each e newDeps ds s) = node_modules s"
  "pkgTasks (reload_each e newDeps ds s) = pkgTasks s"
  "fullCache (reload_each e newDeps ds s) = fullCache s"
  "tempCache (reload_each e newDeps ds s) = tempCache s"
  "depTask (reload_each e newDeps ds s) = depTask s"
  by (induction e newDeps ds s rule: reload_each.induct; simp split: option.splits)+

lemma reconcile_frame [simp]:
  "fst (reconcile e localDeps s) = Some 0"
  "spawned (snd (reconcile e localDeps s)) = spawned s"
  "written (snd (reconcile e localDeps s)) = written s"
  "manifest (snd (reconcile e localDeps s)) = manifest s"
  "node_modules (snd (reconcile e localDeps s)) = node_modules s"
  by (simp_all add: reconcile_def split_def Let_def)

lemma override_frame [simp]:
  "spawned (override e deps s) = spawned s"
  "reloads (override e deps s) = reloads s"
  "node_modules (override e deps s) = node_modules s"
  "pkgTasks (override e deps s) = pkgTasks s" "fullCache (override e deps s) = fullCache s"
  "tempCache (override e deps s) = tempCache s" "depTask (override e deps s) = depTask s"
  "written (override e deps s) = written s @ [manifest (override e deps s)]"
  by (simp_all add: override_def Let_def)

lemma exec_frame [simp]:
  "spawned (snd (exec e args s))
     = spawned s @ [(agent_or_npm (agent e), exec_args (agent e) args)]"
  "written (snd (exec e args s)) = written s"
  "reloads (snd (exec e args s)) = reloads s"
  "manifest (snd (exec e args s)) = manifest s"
  "pkgTasks (snd (exec e args s)) = pkgTasks s" "fullCache (snd (exec e args s)) = fullCache s"
  "tempCache (snd (exec e args s)) = tempCache s" "depTask (snd (exec e args s)) = depTask s"
  by (simp_all add: exec_def split_def Let_def)

lemma install_cases:
  "install e deps forced s =
     (if fst (decide e deps (priv_getLocalDeps s deps) (object_keys deps) forced)
      then (case fst (priv_install e (override e deps s)) of
              None \<Rightarrow> (None, snd (priv_install e (override e deps s)))
            | Some code \<Rightarrow>
                if code \<noteq> 0 then (Some code, snd (priv_install e (override e deps s)))
                else reconcile e (priv_getLocalDeps s deps)
                       (snd (priv_install e (override e deps s))))
      else reconcile e (priv_getLocalDeps s deps) (override e deps s))"
  by (simp add: install_def Let_def split_def split: option.splits prod.splits)

text \<open>
  C2. \<^verbatim>\<open>install\<close> spawns the package manager, once, exactly when the \<^verbatim>\<open>forced\<close> flag
  is set or some overridden name is not satisfied: not workspace-linked, and without a
  non-empty requested range that the locally resolved version satisfies. The loop
  evaluates the overrides up to the first that is not satisfied, that one included, and
  no further. When every overridden package is workspace-linked the decision is the
  flag as it was passed.
\<close>

theorem install_spawns_when_unsatisfied:
  "spawned (snd (install e deps forced s)) =
     spawned s @
       (if forced \<or> (\<exists>name\<in>set (object_keys deps). \<not> override_satisfied e s deps name)
        then [(agent_or_npm (agent e),
               exec_args (agent e)
                 (if truthy (config_endpoint e) then [''--registry'', endpoint e] else []))]
        else [])
   \<and> snd (decide e deps (priv_getLocalDeps s deps) (object_keys deps) forced) =
       takeWhile (override_satisfied e s deps) (object_keys deps)
         @ take 1 (dropWhile (override_satisfied e s deps) (object_keys deps))
   \<and> ((\<forall>name\<in>set (object_keys deps). workspace_linked s name) \<longrightarrow>
        fst (decide e deps (priv_getLocalDeps s deps) (object_keys deps) forced) = forced)"
proof -
  have d: "decide e deps (priv_getLocalDeps s deps) (object_keys deps) forced =
     (forced \<or> (\<exists>name\<in>set (object_keys deps). \<not> override_satisfied e s deps name),
      takeWhile (override_satisfied e s deps) (object_keys deps)
        @ take 1 (dropWhile (override_satisfied e s deps) (object_keys deps)))"
    by (rule decide_char) simp
  have 1: "spawned (snd (install e deps forced s)) =
     spawned s @
       (if forced \<or> (\<exists>name\<in>set (object_keys deps). \<not> override_satisfied e s deps name)
        then [(agent_or_npm (agent e),
               exec_args (agent e)
                 (if truthy (config_endpoint e) then [''--registry'', endpoint e] else []))]
        else [])"
    unfolding install_cases d
    by (simp add: priv_install_def split: option.splits)
  have 3: "fst (decide e deps (priv_getLocalDeps s deps) (object_keys deps) forced) = forced"
    if "\<forall>name\<in>set (object_keys deps). workspace_linked s name"
    unfolding d using that by (auto simp: override_satisfied_def)
  show ?thesis using 1 d 3 by simp
qed

subsection \<open>Exit codes, and the empty override\<close>

lemma run_child_settled:
  "fst (run_child h events (Some c) out err) = Some c"
proof (induction events arbitrary: out err)
  case Nil
  then show ?case by simp
next
  case (Cons ev events)
  then show ?case by (cases ev) (simp_all add: split_def Let_def)
qed

lemma run_child_code:
  "fst (run_child h events None out err) = exit_code events"
proof (induction events arbitrary: out err)
  case Nil
  then show ?case by (simp add: exit_code_def)
next
  case (Cons ev events)
  show ?case
  proof (cases ev)
    case (Stdout x)
    then show ?thesis using Cons.IH by (simp add: split_def Let_def exit_code_def is_terminal_def)
  next
    case (Stderr x)
    then show ?thesis using Cons.IH by (simp add: split_def Let_def exit_code_def is_terminal_def)
  next
    case (Exit c)
    then show ?thesis by (simp add: run_child_settled exit_code_def is_terminal_def)
  next
    case SpawnError
    then show ?thesis by (simp add: run_child_settled exit_code_def is_terminal_def)
  qed
qed



lemma insert_by_set: "set (insert_by cmp x ys) = insert x (set ys)"
  by (induction ys) auto

lemma insert_by_distinct:
  "distinct (map fst (insert_by cmp x ys)) = (fst x \<notin> fst ` set ys \<and> distinct (map fst ys))"
  by (induction ys) (auto simp: insert_by_set)

lemma js_sort_fold_set:
  "set (foldl (\<lambda>acc x. insert_by cmp x acc) acc xs) = set acc \<union> set xs"
  by (induction xs arbitrary: acc) (auto simp: insert_by_set)

lemma js_sort_fold_distinct:
  "distinct (map fst (acc @ xs)) \<Longrightarrow>
     distinct (map fst (foldl (\<lambda>acc x. insert_by cmp x acc) acc xs))"
proof (induction xs arbitrary: acc)
  case Nil
  then show ?case by simp
next
  case (Cons x xs)
  have "distinct (map fst (insert_by cmp x acc @ xs))"
    using Cons.prems by (auto simp: insert_by_distinct insert_by_set)
  from Cons.IH[OF this] show ?case by simp
qed

lemma js_sort_set: "set (js_sort cmp xs) = set xs"
  using js_sort_fold_set[of cmp "[]" xs] by (simp add: js_sort_def)

lemma js_sort_distinct: "distinct (map fst xs) \<Longrightarrow> distinct (map fst (js_sort cmp xs))"
  using js_sort_fold_distinct[of "[]" xs cmp] by (simp add: js_sort_def)

lemma set_update_new: "k \<notin> fst ` set d \<Longrightarrow> set (AList.update k v d) = insert (k, v) (set d)"
  by (induction d) auto

lemma set_from_entries_distinct_fold:
  assumes "distinct (map fst (d @ es))"
  shows "set (foldl (\<lambda>d e. dict_put d (fst e) (snd e)) d es) = set d \<union> set es"
  using assms
proof (induction es arbitrary: d)
  case Nil
  then show ?case by simp
next
  case (Cons x es)
  have k: "fst x \<notin> fst ` set d" using Cons.prems by auto
  have s: "set (dict_put d (fst x) (snd x)) = insert x (set d)"
    using set_update_new[OF k, of "snd x"] by (simp add: dict_put_def set_enum_order)
  have "distinct (map fst (dict_put d (fst x) (snd x) @ es))"
  proof -
    have "distinct (object_keys (dict_put d (fst x) (snd x)))"
      using Cons.prems by (intro dict_put_distinct) (simp add: object_keys_def)
    moreover have "fst ` set (dict_put d (fst x) (snd x)) \<inter> fst ` set es = {}"
      using Cons.prems s by auto
    ultimately show ?thesis using Cons.prems by (simp add: object_keys_def)
  qed
  from Cons.IH[OF this] s show ?case by auto
qed

lemma set_from_entries_distinct:
  "distinct (map fst es) \<Longrightarrow> set (from_entries es) = set es"
  using set_from_entries_distinct_fold[of "[]" es] by (simp add: from_entries_def)

lemma apply_overrides_Nil [simp]: "apply_overrides [] (object_keys []) m = m"
  by (simp add: object_keys_def)

lemma install_writes_once:
  "written (snd (install e deps forced s)) = written s @ [manifest (override e deps s)]"
  unfolding install_cases
  by (simp add: priv_install_def split: option.splits)

lemma install_manifest:
  "manifest (snd (install e deps forced s)) = manifest (override e deps s)"
  unfolding install_cases
  by (simp add: priv_install_def split: option.splits)

text \<open>
  C1, as amended. \<^verbatim>\<open>install({})\<close> without \<^verbatim>\<open>forced\<close> returns 0 and spawns no process;
  it writes the manifest once, with the dependency map it had, sorted by key: the same
  entries when the keys are distinct.
\<close>

theorem install_empty:
  "fst (install e [] False s) = Some 0
   \<and> spawned (snd (install e [] False s)) = spawned s
   \<and> written (snd (install e [] False s)) =
       written s @ [from_entries (js_sort (\<lambda>a b. localeCompare e (fst a) (fst b)) (manifest s))]
   \<and> (distinct (object_keys (manifest s)) \<longrightarrow>
        set (from_entries (js_sort (\<lambda>a b. localeCompare e (fst a) (fst b)) (manifest s)))
          = set (manifest s))"
proof -
  have d: "decide e [] (priv_getLocalDeps s []) (object_keys []) False = (False, [])"
    by (simp add: object_keys_def)
  have 1: "fst (install e [] False s) = Some 0" "spawned (snd (install e [] False s)) = spawned s"
    unfolding install_cases d by simp_all
  have 2: "written (snd (install e [] False s)) =
       written s @ [from_entries (js_sort (\<lambda>a b. localeCompare e (fst a) (fst b)) (manifest s))]"
    unfolding install_writes_once by (simp add: override_def Let_def)
  have 3: "set (from_entries (js_sort (\<lambda>a b. localeCompare e (fst a) (fst b)) (manifest s)))
          = set (manifest s)" if "distinct (object_keys (manifest s))"
    using that
    by (simp add: set_from_entries_distinct js_sort_distinct js_sort_set object_keys_def)
  show ?thesis using 1 2 3 by simp
qed

text \<open>
  The claim as stated has no manifest write: \<^verbatim>\<open>override\<close> writes the file whatever the
  overrides are.
\<close>

theorem install_empty_writes_counterexample:
  "written (snd (install demo_env [] False demo_installer)) \<noteq> written demo_installer"
  by (simp add: install_writes_once)

lemma demo_satisfied:
  "\<not> override_satisfied demo_env demo_installer demo_upgrade ''left-pad''"
  "override_satisfied demo_env demo_installer demo_same ''left-pad''"
  "\<not> override_satisfied demo_failing_env demo_installer demo_upgrade ''left-pad''"
  "\<not> override_satisfied demo_unstartable_env demo_installer demo_upgrade ''left-pad''"
  by (simp_all add: override_satisfied_def workspace_linked_def installed_version_def
      loadManifest_def demo_installer_def demo_upgrade_def demo_same_def dict_get_def
      demo_env_def demo_failing_env_def demo_unstartable_env_def caret_satisfies_def
      version_core_def strip_range_def is_digit_def decimal_def)

theorem install_spawns_when_unsatisfied_witness:
  "\<not> override_satisfied demo_env demo_installer demo_upgrade ''left-pad''
   \<and> spawned (snd (install demo_env demo_upgrade False demo_installer)) = [(''yarn'', [''--json''])]
   \<and> override_satisfied demo_env demo_installer demo_same ''left-pad''
   \<and> spawned (snd (install demo_env demo_same False demo_installer)) = []"
proof -
  have k: "object_keys demo_upgrade = [''left-pad'']" "object_keys demo_same = [''left-pad'']"
    by (simp_all add: object_keys_def demo_upgrade_def demo_same_def)
  have a: "agent_or_npm (agent demo_env) = ''yarn''"
    "exec_args (agent demo_env) (if truthy (config_endpoint demo_env)
        then [''--registry'', endpoint demo_env] else []) = [''--json'']"
    "spawned demo_installer = []"
    by (simp_all add: demo_env_def agent_or_npm_def exec_args_def useJson_def js_ge_def
        truthy_def demo_installer_def)
  from install_spawns_when_unsatisfied[of demo_env demo_upgrade False demo_installer]
  have 1: "spawned (snd (install demo_env demo_upgrade False demo_installer))
             = [(''yarn'', [''--json''])]"
    by (simp add: k a demo_satisfied)
  from install_spawns_when_unsatisfied[of demo_env demo_same False demo_installer]
  have 2: "spawned (snd (install demo_env demo_same False demo_installer)) = []"
    by (simp add: k a demo_satisfied)
  show ?thesis using 1 2 demo_satisfied by simp
qed


theorem install_empty_witness:
  "distinct (object_keys (manifest demo_installer))
   \<and> fst (install demo_env [] False demo_installer) = Some 0
   \<and> spawned (snd (install demo_env [] False demo_installer)) = []
   \<and> written (snd (install demo_env [] False demo_installer)) = [[(''left-pad'', ''^1.0.0'')]]"
proof -
  have m: "from_entries (js_sort (\<lambda>a b. localeCompare demo_env (fst a) (fst b))
             (manifest demo_installer)) = [(''left-pad'', ''^1.0.0'')]"
    by (simp add: demo_installer_def js_sort_def from_entries_def dict_put_def enum_order_def
        is_array_index_def is_digit_def)
  have d: "distinct (object_keys (manifest demo_installer))"
    "spawned demo_installer = []" "written demo_installer = []"
    by (simp_all add: demo_installer_def object_keys_def)
  from install_empty[of demo_env demo_installer] show ?thesis
    by (simp add: m d)
qed

subsection \<open>What an install leaves of the tasks, the caches and the snapshot\<close>

lemma depTask_out:
  "(s\<lparr>depTask := d\<rparr>)\<lparr>manifest := xmanifest\<rparr> = (s\<lparr>manifest := xmanifest\<rparr>)\<lparr>depTask := d\<rparr>"
  "(s\<lparr>depTask := d\<rparr>)\<lparr>pkgTasks := xpkgTasks\<rparr> = (s\<lparr>pkgTasks := xpkgTasks\<rparr>)\<lparr>depTask := d\<rparr>"
  "(s\<lparr>depTask := d\<rparr>)\<lparr>fullCache := xfullCache\<rparr> = (s\<lparr>fullCache := xfullCache\<rparr>)\<lparr>depTask := d\<rparr>"
  "(s\<lparr>depTask := d\<rparr>)\<lparr>tempCache := xtempCache\<rparr> = (s\<lparr>tempCache := xtempCache\<rparr>)\<lparr>depTask := d\<rparr>"
  "(s\<lparr>depTask := d\<rparr>)\<lparr>promises := xpromises\<rparr> = (s\<lparr>promises := xpromises\<rparr>)\<lparr>depTask := d\<rparr>"
  "(s\<lparr>depTask := d\<rparr>)\<lparr>fetched := xfetched\<rparr> = (s\<lparr>fetched := xfetched\<rparr>)\<lparr>depTask := d\<rparr>"
  "(s\<lparr>depTask := d\<rparr>)\<lparr>written := xwritten\<rparr> = (s\<lparr>written := xwritten\<rparr>)\<lparr>depTask := d\<rparr>"
  "(s\<lparr>depTask := d\<rparr>)\<lparr>spawned := xspawned\<rparr> = (s\<lparr>spawned := xspawned\<rparr>)\<lparr>depTask := d\<rparr>"
  "(s\<lparr>depTask := d\<rparr>)\<lparr>broadcasts := xbroadcasts\<rparr> = (s\<lparr>broadcasts := xbroadcasts\<rparr>)\<lparr>depTask := d\<rparr>"
  "(s\<lparr>depTask := d\<rparr>)\<lparr>flushes := xflushes\<rparr> = (s\<lparr>flushes := xflushes\<rparr>)\<lparr>depTask := d\<rparr>"
  "(s\<lparr>depTask := d\<rparr>)\<lparr>refreshed := xrefreshed\<rparr> = (s\<lparr>refreshed := xrefreshed\<rparr>)\<lparr>depTask := d\<rparr>"
  "(s\<lparr>depTask := d\<rparr>)\<lparr>reloads := xreloads\<rparr> = (s\<lparr>reloads := xreloads\<rparr>)\<lparr>depTask := d\<rparr>"
  "(s\<lparr>depTask := d\<rparr>)\<lparr>logged := xlogged\<rparr> = (s\<lparr>logged := xlogged\<rparr>)\<lparr>depTask := d\<rparr>"
  "(s\<lparr>depTask := d\<rparr>)\<lparr>node_modules := xnode_modules\<rparr> = (s\<lparr>node_modules := xnode_modules\<rparr>)\<lparr>depTask := d\<rparr>"
  by simp_all

lemma flushData_depTask [simp]:
  "flushData e (s\<lparr>depTask := d\<rparr>) = (flushData e s)\<lparr>depTask := d\<rparr>"
  by (simp add: flushData_def flush_callback_def Let_def)

lemma settle_depTask [simp]:
  "settle t r (s\<lparr>depTask := d\<rparr>) = (settle t r s)\<lparr>depTask := d\<rparr>"
  by (simp add: settle_def)

lemma finish_depTask [simp]:
  "fst (priv_getPackage_finish e name t resp (s\<lparr>depTask := d\<rparr>))
     = fst (priv_getPackage_finish e name t resp s)"
  "snd (priv_getPackage_finish e name t resp (s\<lparr>depTask := d\<rparr>))
     = (snd (priv_getPackage_finish e name t resp s))\<lparr>depTask := d\<rparr>"
  by (simp_all add: priv_getPackage_finish_def Let_def depTask_out split: option.splits)

lemma getPackage_depTask [simp]:
  "fst (getPackage name (s\<lparr>depTask := d\<rparr>)) = fst (getPackage name s)"
  "snd (getPackage name (s\<lparr>depTask := d\<rparr>)) = (snd (getPackage name s))\<lparr>depTask := d\<rparr>"
  by (simp_all add: getPackage_def priv_getPackage_start_def depTask_out split: option.splits)

lemma task_state_depTask [simp]: "task_state (s\<lparr>depTask := d\<rparr>) t = task_state s t"
  by (simp add: task_state_def)

lemma await_getPackage_depTask [simp]:
  "fst (await_getPackage e name (s\<lparr>depTask := d\<rparr>)) = fst (await_getPackage e name s)"
  "snd (await_getPackage e name (s\<lparr>depTask := d\<rparr>))
     = (snd (await_getPackage e name s))\<lparr>depTask := d\<rparr>"
  by (simp_all add: await_getPackage_def split_def Let_def split: promise.splits)

lemma resolve_remote_depTask [simp]:
  "fst (resolve_remote e name dep (s\<lparr>depTask := d\<rparr>)) = fst (resolve_remote e name dep s)"
  "snd (resolve_remote e name dep (s\<lparr>depTask := d\<rparr>))
     = (snd (resolve_remote e name dep s))\<lparr>depTask := d\<rparr>"
  by (simp_all add: resolve_remote_def split_def Let_def split: option.splits)

lemma loadManifest_depTask [simp]: "loadManifest (s\<lparr>depTask := d\<rparr>) = loadManifest s"
  by (simp add: loadManifest_def fun_eq_iff)

lemma resolve_dep_depTask [simp]:
  "fst (resolve_dep e name dep (s\<lparr>depTask := d\<rparr>)) = fst (resolve_dep e name dep s)"
  "snd (resolve_dep e name dep (s\<lparr>depTask := d\<rparr>))
     = (snd (resolve_dep e name dep s))\<lparr>depTask := d\<rparr>"
  by (simp_all add: resolve_dep_def Let_def split: option.splits)

lemma getDeps_each_depTask_both:
  "fst (getDeps_each e ds (s\<lparr>depTask := d\<rparr>)) = fst (getDeps_each e ds s)
   \<and> snd (getDeps_each e ds (s\<lparr>depTask := d\<rparr>))
       = (snd (getDeps_each e ds s))\<lparr>depTask := d\<rparr>"
  by (induction ds arbitrary: s) (auto simp: split_def Let_def)

lemma getDeps_each_depTask [simp]:
  "fst (getDeps_each e ds (s\<lparr>depTask := d\<rparr>)) = fst (getDeps_each e ds s)"
  "snd (getDeps_each e ds (s\<lparr>depTask := d\<rparr>)) = (snd (getDeps_each e ds s))\<lparr>depTask := d\<rparr>"
  by (simp_all add: getDeps_each_depTask_both)

lemma priv_getDeps_depTask [simp]:
  "fst (priv_getDeps e (s\<lparr>depTask := d\<rparr>)) = fst (priv_getDeps e s)"
  "snd (priv_getDeps e (s\<lparr>depTask := d\<rparr>)) = (snd (priv_getDeps e s))\<lparr>depTask := d\<rparr>"
  by (simp_all add: priv_getDeps_def)

lemma refresh_forgets:
  "refresh e flag (s\<lparr>pkgTasks := t, fullCache := f, tempCache := c, depTask := d\<rparr>)
     = refresh e flag s"
  by (simp add: refresh_def split_def Let_def depTask_out)

lemma refresh_fields:
  "depTask (refresh e flag s)
     = Some (fst (priv_getDeps e (s\<lparr>pkgTasks := [], fullCache := [], tempCache := []\<rparr>)))"
  "pkgTasks (refresh e flag s)
     = pkgTasks (snd (priv_getDeps e (s\<lparr>pkgTasks := [], fullCache := [], tempCache := []\<rparr>)))"
  "fullCache (refresh e flag s)
     = fullCache (snd (priv_getDeps e (s\<lparr>pkgTasks := [], fullCache := [], tempCache := []\<rparr>)))"
  "tempCache (refresh e flag s)
     = tempCache (snd (priv_getDeps e (s\<lparr>pkgTasks := [], fullCache := [], tempCache := []\<rparr>)))"
  by (simp_all add: refresh_def split_def Let_def)

lemma getDeps_after_refresh:
  "getDeps e (refresh e flag s) = (the (depTask (refresh e flag s)), refresh e flag s)"
  by (simp add: getDeps_def refresh_fields)

lemma reconcile_fields:
  "depTask (snd (reconcile e l s)) = depTask (refresh e False s)"
  "pkgTasks (snd (reconcile e l s)) = pkgTasks (refresh e False s)"
  "fullCache (snd (reconcile e l s)) = fullCache (refresh e False s)"
  "tempCache (snd (reconcile e l s)) = tempCache (refresh e False s)"
  by (simp_all add: reconcile_def getDeps_after_refresh Let_def)

lemma reconcile_forgets:
  "reconcile e l (s\<lparr>pkgTasks := t, fullCache := f, tempCache := c, depTask := d\<rparr>)
     = reconcile e l s"
  by (simp add: reconcile_def refresh_forgets)

lemma override_caches:
  "override e deps (s\<lparr>pkgTasks := t, fullCache := f, tempCache := c, depTask := d\<rparr>)
     = (override e deps s)\<lparr>pkgTasks := t, fullCache := f, tempCache := c, depTask := d\<rparr>"
  by (simp add: override_def Let_def)

lemma exec_caches:
  "fst (exec e args (s\<lparr>pkgTasks := t, fullCache := f, tempCache := c, depTask := d\<rparr>))
     = fst (exec e args s)"
  "snd (exec e args (s\<lparr>pkgTasks := t, fullCache := f, tempCache := c, depTask := d\<rparr>))
     = (snd (exec e args s))\<lparr>pkgTasks := t, fullCache := f, tempCache := c, depTask := d\<rparr>"
  by (simp_all add: exec_def split_def Let_def)

lemma getLocalDeps_caches:
  "priv_getLocalDeps (s\<lparr>pkgTasks := t, fullCache := f, tempCache := c, depTask := d\<rparr>) deps
     = priv_getLocalDeps s deps"
  by (simp add: priv_getLocalDeps_def loadManifest_def)

lemma install_forgets:
  assumes "fst (install e deps forced s) = Some 0"
  shows "install e deps forced (s\<lparr>pkgTasks := t, fullCache := f, tempCache := c, depTask := d\<rparr>)
           = install e deps forced s"
  using assms unfolding install_cases
  by (auto simp: getLocalDeps_caches override_caches priv_install_def exec_caches
      reconcile_forgets split: option.splits if_splits)

lemma install_failed_keeps:
  assumes "fst (install e deps forced s) = Some code" "code \<noteq> 0"
  shows "pkgTasks (snd (install e deps forced s)) = pkgTasks s"
    "fullCache (snd (install e deps forced s)) = fullCache s"
    "tempCache (snd (install e deps forced s)) = tempCache s"
    "depTask (snd (install e deps forced s)) = depTask s"
  using assms unfolding install_cases
  by (auto simp: priv_install_def split: option.splits if_splits)

lemma install_success_state:
  assumes "fst (install e deps forced s) = Some 0"
  shows "\<exists>s0. pkgTasks s0 = [] \<and> fullCache s0 = [] \<and> tempCache s0 = []
          \<and> manifest s0 = manifest (snd (install e deps forced s))
          \<and> node_modules s0 = node_modules (snd (install e deps forced s))
          \<and> depTask (snd (install e deps forced s)) = Some (fst (priv_getDeps e s0))
          \<and> pkgTasks (snd (install e deps forced s)) = pkgTasks (snd (priv_getDeps e s0))
          \<and> fullCache (snd (install e deps forced s)) = fullCache (snd (priv_getDeps e s0))
          \<and> tempCache (snd (install e deps forced s)) = tempCache (snd (priv_getDeps e s0))"
proof -
  have r: "\<exists>s0. pkgTasks s0 = [] \<and> fullCache s0 = [] \<and> tempCache s0 = []
          \<and> manifest s0 = manifest (snd (reconcile e l sb))
          \<and> node_modules s0 = node_modules (snd (reconcile e l sb))
          \<and> depTask (snd (reconcile e l sb)) = Some (fst (priv_getDeps e s0))
          \<and> pkgTasks (snd (reconcile e l sb)) = pkgTasks (snd (priv_getDeps e s0))
          \<and> fullCache (snd (reconcile e l sb)) = fullCache (snd (priv_getDeps e s0))
          \<and> tempCache (snd (reconcile e l sb)) = tempCache (snd (priv_getDeps e s0))" for l sb
    by (rule exI[of _ "sb\<lparr>pkgTasks := [], fullCache := [], tempCache := []\<rparr>"])
       (simp add: reconcile_fields refresh_fields)
  from assms have "\<exists>sb. install e deps forced s = reconcile e (priv_getLocalDeps s deps) sb"
    unfolding install_cases by (auto split: option.splits if_splits)
  then obtain sb where "install e deps forced s = reconcile e (priv_getLocalDeps s deps) sb"
    by blast
  with r[of "priv_getLocalDeps s deps" sb] show ?thesis by simp
qed

lemma install_result:
  "fst (install e deps forced s) =
     (if fst (decide e deps (priv_getLocalDeps s deps) (object_keys deps) forced)
      then exit_code (fst (spawn e (agent_or_npm (agent e))
                            (exec_args (agent e)
                               (if truthy (config_endpoint e) then [''--registry'', endpoint e]
                                else []))
                            (node_modules s)))
      else Some 0)"
  unfolding install_cases
  by (auto simp: priv_install_def exec_def split_def Let_def run_child_code
      split: option.splits)

text \<open>
  C3, as amended. When \<^verbatim>\<open>install\<close> returns 0, which it does when the decision is a skip
  and when the process exits with code 0, the fetch tasks, both version caches and the
  snapshot it leaves do not depend on the ones it found: they are what \<^verbatim>\<open>_getDeps\<close>
  computes from no task and empty caches, for the manifest and the installed packages
  as they are then. When the process ends with another code, \<^verbatim>\<open>install\<close> returns that
  code and the tasks, the caches and the snapshot are the ones it found.
\<close>

theorem install_refreshes:
  "(fst (install e deps forced s) = Some 0 \<longrightarrow>
      install e deps forced (s\<lparr>pkgTasks := t, fullCache := f, tempCache := c, depTask := d\<rparr>)
        = install e deps forced s
      \<and> (\<exists>s0. pkgTasks s0 = [] \<and> fullCache s0 = [] \<and> tempCache s0 = []
            \<and> manifest s0 = manifest (snd (install e deps forced s))
            \<and> node_modules s0 = node_modules (snd (install e deps forced s))
            \<and> depTask (snd (install e deps forced s)) = Some (fst (priv_getDeps e s0))
            \<and> pkgTasks (snd (install e deps forced s)) = pkgTasks (snd (priv_getDeps e s0))
            \<and> fullCache (snd (install e deps forced s)) = fullCache (snd (priv_getDeps e s0))
            \<and> tempCache (snd (install e deps forced s)) = tempCache (snd (priv_getDeps e s0))))
   \<and> (\<not> fst (decide e deps (priv_getLocalDeps s deps) (object_keys deps) forced) \<longrightarrow>
        fst (install e deps forced s) = Some 0)
   \<and> (fst (install e deps forced s) = Some code \<and> code \<noteq> 0 \<longrightarrow>
        pkgTasks (snd (install e deps forced s)) = pkgTasks s
        \<and> fullCache (snd (install e deps forced s)) = fullCache s
        \<and> tempCache (snd (install e deps forced s)) = tempCache s
        \<and> depTask (snd (install e deps forced s)) = depTask s)"
  using install_forgets[where e = e and deps = deps and forced = forced and s = s
          and t = t and f = f and c = c and d = d]
    install_success_state[of e deps forced s]
    install_failed_keeps[of e deps forced s code] install_result[of e deps forced s]
  by auto

lemma demo_stale_satisfied:
  "\<not> override_satisfied demo_failing_env demo_stale demo_upgrade ''left-pad''"
  "\<not> override_satisfied demo_env demo_fetched demo_upgrade ''left-pad''"
  by (simp_all add: override_satisfied_def workspace_linked_def installed_version_def
      loadManifest_def demo_stale_def demo_fetched_def demo_installer_def demo_upgrade_def
      dict_get_def demo_env_def demo_failing_env_def caret_satisfies_def
      version_core_def strip_range_def is_digit_def decimal_def)

lemma demo_stale_result:
  "fst (install demo_failing_env demo_upgrade False demo_stale) = Some 1"
  "fst (install demo_env demo_upgrade False demo_fetched) = Some 0"
proof -
  have k: "object_keys demo_upgrade = [''left-pad'']"
    by (simp add: object_keys_def demo_upgrade_def)
  have d: "fst (decide demo_failing_env demo_upgrade
                  (priv_getLocalDeps demo_stale demo_upgrade) (object_keys demo_upgrade) False)"
     "fst (decide demo_env demo_upgrade
                  (priv_getLocalDeps demo_fetched demo_upgrade) (object_keys demo_upgrade) False)"
    using decide_char[of "object_keys demo_upgrade" demo_upgrade demo_failing_env
            demo_stale False]
          decide_char[of "object_keys demo_upgrade" demo_upgrade demo_env
            demo_fetched False]
          demo_stale_satisfied
    by (simp_all add: k del: decide.simps)
  show "fst (install demo_failing_env demo_upgrade False demo_stale) = Some 1"
    unfolding install_result using d(1)
    by (simp add: demo_failing_env_def exit_code_def is_terminal_def)
  show "fst (install demo_env demo_upgrade False demo_fetched) = Some 0"
    unfolding install_result using d(2)
    by (simp add: demo_env_def exit_code_def is_terminal_def)
qed

text \<open>
  The claim as stated has the tasks and caches cleared and the snapshot recomputed also
  when the process fails. With a package manager that exits with code 1, the stale task,
  cache entry and snapshot are all kept.
\<close>

theorem install_failed_keeps_caches_counterexample:
  "fst (install demo_failing_env demo_upgrade False demo_stale) = Some 1
   \<and> pkgTasks (snd (install demo_failing_env demo_upgrade False demo_stale)) = [(''left-pad'', 0)]
   \<and> fullCache (snd (install demo_failing_env demo_upgrade False demo_stale))
       = [(''left-pad'', [(''1.0.5'', PackageMeta [] [] None)])]
   \<and> depTask (snd (install demo_failing_env demo_upgrade False demo_stale))
       = Some [(''left-pad'',
                \<lparr>request = ''1.0.0'', resolved = Some ''1.0.5'', workspace = Some False,
                   invalid = None, latest = Some ''1.0.5''\<rparr>)]"
  using install_failed_keeps[OF demo_stale_result(1)] demo_stale_result(1)
  by (simp add: demo_stale_def)

theorem install_refreshes_witness:
  "fst (install demo_env demo_upgrade False demo_fetched) = Some 0
   \<and> install demo_env demo_upgrade False demo_stale
       = install demo_env demo_upgrade False demo_fetched
   \<and> fst (install demo_failing_env demo_upgrade False demo_stale) = Some 1
   \<and> pkgTasks (snd (install demo_failing_env demo_upgrade False demo_stale))
       = pkgTasks demo_stale"
proof -
  from install_refreshes[where e = demo_env and deps = demo_upgrade and forced = False
      and s = demo_fetched] demo_stale_result(2)
  have "install demo_env demo_upgrade False demo_stale
          = install demo_env demo_upgrade False demo_fetched"
    unfolding demo_stale_def by blast
  moreover
  from install_refreshes[where e = demo_failing_env and deps = demo_upgrade
      and forced = False and s = demo_stale and code = 1]
    demo_stale_result(1)
  have "pkgTasks (snd (install demo_failing_env demo_upgrade False demo_stale))
          = pkgTasks demo_stale"
    by simp
  ultimately show ?thesis using demo_stale_result by simp
qed

subsection \<open>Well-formed dictionaries\<close>











subsection \<open>Reload signals\<close>























end
